theory Spec2Isabelle
  imports Main
begin

section \<open>Time\<close>

text \<open>
  An instant (Go's \<^verbatim>\<open>time.Time\<close>) is the number of nanoseconds since the Unix epoch.
  Every instant the state manager reads or stores comes from \<^verbatim>\<open>time.Now().UTC()\<close>
  or from the state file, so it carries no monotonic clock reading, and two instants are
  compared as \<^verbatim>\<open>Time.Equal\<close> compares them. A \<^verbatim>\<open>time.Duration\<close> is a signed
  64-bit count of nanoseconds.
\<close>

type_synonym Time = int
type_synonym Duration = int

definition minDuration :: Duration where
  "minDuration = - (2 ^ 63)"

definition maxDuration :: Duration where
  "maxDuration = 2 ^ 63 - 1"

definition Hour :: Duration where
  "Hour = 3600000000000"

text \<open>
  \<^verbatim>\<open>t.Sub(u)\<close> of the standard library: the difference as a Duration, which stops at
  the smallest or the largest Duration when the true difference does not fit.
\<close>

definition time_Sub :: "Time \<Rightarrow> Time \<Rightarrow> Duration" where
  "time_Sub t u =
     (if t - u < minDuration then minDuration
      else if maxDuration < t - u then maxDuration
      else t - u)"

section \<open>The persisted state and the transition engine\<close>

text \<open>
  \<^verbatim>\<open>type State struct { WasOnCall bool; LastAdvanceNotificationSent *time.Time }\<close>:
  the nil pointer is \<open>None\<close>.
\<close>

record State =
  WasOnCall :: bool
  LastAdvanceNotificationSent :: "Time option"

definition HasTransitionToOnCall :: "State \<Rightarrow> bool \<Rightarrow> bool" where
  "HasTransitionToOnCall previousState currentlyOnCall =
     (\<not> WasOnCall previousState \<and> currentlyOnCall)"

text \<open>
  \<^verbatim>\<open>ShouldSendAdvanceNotification\<close> reads the clock once; the reading is the
  first argument \<open>now\<close>. The early returns of the source are the branches, in order.
\<close>

definition ShouldSendAdvanceNotification :: "Time \<Rightarrow> State \<Rightarrow> Time \<Rightarrow> Duration \<Rightarrow> bool" where
  "ShouldSendAdvanceNotification now state shiftStartTime advanceTime =
     (if advanceTime \<le> 0 then False
      else
        let timeUntilShift = time_Sub shiftStartTime now in
        if timeUntilShift \<le> 0 \<or> timeUntilShift > advanceTime then False
        else
          (case LastAdvanceNotificationSent state of
             None \<Rightarrow> True
           | Some lastSent \<Rightarrow>
               let timeSinceLastNotification = time_Sub now lastSent in
               if timeSinceLastNotification < 24 * Hour then False else True))"

text \<open>
  \<^verbatim>\<open>RecordAdvanceNotificationSent\<close> stores the clock reading \<open>now\<close> in the state it
  is given; the mutated state is the result.
\<close>

definition RecordAdvanceNotificationSent :: "Time \<Rightarrow> State \<Rightarrow> State" where
  "RecordAdvanceNotificationSent now state =
     state\<lparr>LastAdvanceNotificationSent := Some now\<rparr>"

section \<open>Facts about durations\<close>

lemma time_Sub_exact:
  "minDuration \<le> t - u \<Longrightarrow> t - u \<le> maxDuration \<Longrightarrow> time_Sub t u = t - u"
  by (simp add: time_Sub_def)

lemma time_Sub_pos_iff: "0 < time_Sub t u \<longleftrightarrow> u < t"
  by (simp add: time_Sub_def minDuration_def maxDuration_def)

lemma time_Sub_less_day_iff: "time_Sub t u < 24 * Hour \<longleftrightarrow> t - u < 24 * Hour"
  by (simp add: time_Sub_def minDuration_def maxDuration_def Hour_def)

lemma time_Sub_le_window_iff:
  "a < maxDuration \<Longrightarrow> minDuration \<le> a \<Longrightarrow> time_Sub t u \<le> a \<longleftrightarrow> t - u \<le> a"
  by (auto simp add: time_Sub_def minDuration_def maxDuration_def)

section \<open>The advance-notification decision\<close>

lemma time_Sub_le_iff:
  assumes "u < t"
  shows "time_Sub t u \<le> a \<longleftrightarrow> t - u \<le> a \<or> maxDuration \<le> a"
proof (cases "maxDuration < t - u")
  case True
  then have "time_Sub t u = maxDuration"
    using assms by (simp add: time_Sub_def minDuration_def)
  with True show ?thesis by auto
next
  case False
  then have "time_Sub t u = t - u"
    using assms by (simp add: time_Sub_def minDuration_def)
  with False show ?thesis by auto
qed

lemma ShouldSendAdvanceNotification_differences:
  "ShouldSendAdvanceNotification now state shiftStartTime advanceWindow \<longleftrightarrow>
     0 < advanceWindow
     \<and> 0 < shiftStartTime - now
     \<and> (shiftStartTime - now \<le> advanceWindow \<or> maxDuration \<le> advanceWindow)
     \<and> (LastAdvanceNotificationSent state = None
        \<or> (\<exists>lastSent. LastAdvanceNotificationSent state = Some lastSent
              \<and> 24 * Hour \<le> now - lastSent))"
proof (cases "now < shiftStartTime")
  case True
  have cooldown: "\<not> time_Sub now lastSent < 24 * Hour \<longleftrightarrow> 24 * Hour \<le> now - lastSent"
    for lastSent
    by (simp add: time_Sub_less_day_iff not_less)
  from True have pos: "0 < time_Sub shiftStartTime now"
    by (simp add: time_Sub_pos_iff)
  show ?thesis
    using True pos cooldown time_Sub_le_iff [OF True, of advanceWindow]
    by (auto simp add: ShouldSendAdvanceNotification_def Let_def not_le not_less
        split: option.splits)
next
  case False
  then have "\<not> 0 < time_Sub shiftStartTime now"
    by (simp add: time_Sub_pos_iff)
  with False show ?thesis
    by (simp add: ShouldSendAdvanceNotification_def Let_def)
qed

text \<open>
  C1, as the code has it. \<^verbatim>\<open>ShouldSendAdvanceNotification(state, shiftStartTime,
  advanceWindow)\<close> is false whenever the window is zero or negative, whatever the other
  inputs are. For every window below the largest Duration, it is true exactly when the
  window is positive, \<open>0 < shiftStartTime - now \<le> advanceWindow\<close>, and the last advance
  notification is absent or \<open>now - lastAdvanceNotificationSent\<close> is at least 24 hours,
  the differences being the exact differences of the instants. With the largest Duration
  as the window the upper bound on \<open>shiftStartTime - now\<close> is gone, since
  \<^verbatim>\<open>Time.Sub\<close> stops at that Duration: every shift in the future is then inside the
  window.
\<close>

theorem ShouldSendAdvanceNotification_exact:
  "(advanceWindow < maxDuration \<longrightarrow>
      (ShouldSendAdvanceNotification now state shiftStartTime advanceWindow \<longleftrightarrow>
         0 < advanceWindow
         \<and> 0 < shiftStartTime - now
         \<and> shiftStartTime - now \<le> advanceWindow
         \<and> (LastAdvanceNotificationSent state = None
            \<or> (\<exists>lastSent. LastAdvanceNotificationSent state = Some lastSent
                  \<and> 24 * Hour \<le> now - lastSent))))
   \<and> (advanceWindow = maxDuration \<longrightarrow>
        (ShouldSendAdvanceNotification now state shiftStartTime advanceWindow \<longleftrightarrow>
           0 < shiftStartTime - now
           \<and> (LastAdvanceNotificationSent state = None
              \<or> (\<exists>lastSent. LastAdvanceNotificationSent state = Some lastSent
                    \<and> 24 * Hour \<le> now - lastSent))))
   \<and> (advanceWindow \<le> 0 \<longrightarrow>
        \<not> ShouldSendAdvanceNotification now state shiftStartTime advanceWindow)"
proof (intro conjI impI)
  assume "advanceWindow < maxDuration"
  then have "\<not> maxDuration \<le> advanceWindow" by simp
  then show "ShouldSendAdvanceNotification now state shiftStartTime advanceWindow \<longleftrightarrow>
      0 < advanceWindow \<and> 0 < shiftStartTime - now \<and> shiftStartTime - now \<le> advanceWindow
      \<and> (LastAdvanceNotificationSent state = None
         \<or> (\<exists>lastSent. LastAdvanceNotificationSent state = Some lastSent
               \<and> 24 * Hour \<le> now - lastSent))"
    by (simp add: ShouldSendAdvanceNotification_differences)
next
  assume "advanceWindow = maxDuration"
  then have "0 < advanceWindow" and "maxDuration \<le> advanceWindow"
    by (simp_all add: maxDuration_def)
  then show "ShouldSendAdvanceNotification now state shiftStartTime advanceWindow \<longleftrightarrow>
      0 < shiftStartTime - now
      \<and> (LastAdvanceNotificationSent state = None
         \<or> (\<exists>lastSent. LastAdvanceNotificationSent state = Some lastSent
               \<and> 24 * Hour \<le> now - lastSent))"
    by (simp add: ShouldSendAdvanceNotification_differences)
next
  assume "advanceWindow \<le> 0"
  then show "\<not> ShouldSendAdvanceNotification now state shiftStartTime advanceWindow"
    by (simp add: ShouldSendAdvanceNotification_def)
qed

text \<open>
  The readings of the witness: half an hour before the shift with a window of one hour
  and no marker; the same with a marker one hour old; the same with the window switched
  off; and a shift \<open>2 ^ 63\<close> nanoseconds ahead with the largest Duration as the window.
\<close>

theorem ShouldSendAdvanceNotification_exact_witness:
  "Hour < maxDuration \<and> (0::int) \<le> 0
   \<and> ShouldSendAdvanceNotification 1769342400000000000
        \<lparr>WasOnCall = False, LastAdvanceNotificationSent = None\<rparr>
        1769344200000000000 Hour
   \<and> \<not> ShouldSendAdvanceNotification 1769342400000000000
        \<lparr>WasOnCall = False, LastAdvanceNotificationSent = Some 1769338800000000000\<rparr>
        1769344200000000000 Hour
   \<and> \<not> ShouldSendAdvanceNotification 1769342400000000000
        \<lparr>WasOnCall = False, LastAdvanceNotificationSent = None\<rparr>
        1769349600000000000 Hour
   \<and> \<not> ShouldSendAdvanceNotification 1769342400000000000
        \<lparr>WasOnCall = False, LastAdvanceNotificationSent = None\<rparr>
        1769344200000000000 0
   \<and> ShouldSendAdvanceNotification 1769342400000000000
        \<lparr>WasOnCall = False, LastAdvanceNotificationSent = None\<rparr>
        10992714436854775808 maxDuration"
  using
    ShouldSendAdvanceNotification_exact
      [of Hour 1769342400000000000
          "\<lparr>WasOnCall = False, LastAdvanceNotificationSent = None\<rparr>" 1769344200000000000]
    ShouldSendAdvanceNotification_exact
      [of Hour 1769342400000000000
          "\<lparr>WasOnCall = False, LastAdvanceNotificationSent = Some 1769338800000000000\<rparr>"
          1769344200000000000]
    ShouldSendAdvanceNotification_exact
      [of Hour 1769342400000000000
          "\<lparr>WasOnCall = False, LastAdvanceNotificationSent = None\<rparr>" 1769349600000000000]
    ShouldSendAdvanceNotification_exact
      [of 0 1769342400000000000
          "\<lparr>WasOnCall = False, LastAdvanceNotificationSent = None\<rparr>" 1769344200000000000]
    ShouldSendAdvanceNotification_exact
      [of maxDuration 1769342400000000000
          "\<lparr>WasOnCall = False, LastAdvanceNotificationSent = None\<rparr>" 10992714436854775808]
  by (simp add: Hour_def maxDuration_def)

text \<open>
  The claim as it is written fails at the largest window: at the instant
  \<open>1769342400000000000\<close>, with no marker, a shift \<open>2 ^ 63\<close> nanoseconds ahead and the
  window \<open>2 ^ 63 - 1\<close>, the function returns true, and the difference
  \<open>shiftStartTime - now\<close> is above the window.
\<close>

theorem ShouldSendAdvanceNotification_max_window_counterexample:
  "ShouldSendAdvanceNotification 1769342400000000000
      \<lparr>WasOnCall = False, LastAdvanceNotificationSent = None\<rparr>
      10992714436854775808 maxDuration
   \<and> \<not> ((10992714436854775808::int) - 1769342400000000000 \<le> maxDuration)"
  by (simp add: ShouldSendAdvanceNotification_def time_Sub_def minDuration_def
      maxDuration_def)

section \<open>The transition into on-call\<close>

text \<open>
  C2. \<^verbatim>\<open>HasTransitionToOnCall(previous, currentlyOnCall)\<close> is true exactly when
  \<open>previous.WasOnCall\<close> is false and \<open>currentlyOnCall\<close> is true: observing on-call is a
  transition from every state that was off call and from no state that was on call.
\<close>

theorem HasTransitionToOnCall_iff:
  "(HasTransitionToOnCall previous currentlyOnCall \<longleftrightarrow>
      WasOnCall previous = False \<and> currentlyOnCall = True)
   \<and> (WasOnCall S = False \<longrightarrow> HasTransitionToOnCall S True)
   \<and> (WasOnCall S = True \<longrightarrow> \<not> HasTransitionToOnCall S True)"
  by (simp add: HasTransitionToOnCall_def)

theorem HasTransitionToOnCall_iff_witness:
  "HasTransitionToOnCall \<lparr>WasOnCall = False, LastAdvanceNotificationSent = None\<rparr> True
   \<and> \<not> HasTransitionToOnCall \<lparr>WasOnCall = True, LastAdvanceNotificationSent = Some 5\<rparr> True
   \<and> \<not> HasTransitionToOnCall \<lparr>WasOnCall = False, LastAdvanceNotificationSent = None\<rparr> False"
  using
    HasTransitionToOnCall_iff
      [of "\<lparr>WasOnCall = False, LastAdvanceNotificationSent = None\<rparr>" True
          "\<lparr>WasOnCall = False, LastAdvanceNotificationSent = None\<rparr>"]
    HasTransitionToOnCall_iff
      [of "\<lparr>WasOnCall = False, LastAdvanceNotificationSent = None\<rparr>" False
          "\<lparr>WasOnCall = True, LastAdvanceNotificationSent = Some 5\<rparr>"]
  by simp

section \<open>The state file\<close>

text \<open>
  The state file holds JSON text. The model keeps its syntax tree: \<open>NotJSON\<close> stands for
  bytes that are not one JSON value, and the members of an object are kept in the order
  they are written, duplicates included. \<open>JTime t\<close> is a JSON string whose text is an
  RFC 3339 timestamp of the instant \<open>t\<close>; \<open>JString\<close> is any other string. The payload
  of a number and of an array plays no role for a \<^verbatim>\<open>State\<close> and is left out.
\<close>

datatype json =
    JNull
  | JBool bool
  | JNumber
  | JString string
  | JTime Time
  | JArray
  | JObject "(string \<times> json) list"

datatype FileData = NotJSON | JSON json

text \<open>The file at \<^verbatim>\<open>filePath\<close>: \<open>None\<close> when \<^verbatim>\<open>os.Stat\<close> reports that it does not exist.\<close>

type_synonym Disk = "FileData option"

text \<open>The errors \<^verbatim>\<open>Load\<close> and \<^verbatim>\<open>Save\<close> return, by the message each one wraps.\<close>

datatype StateError =
    FailedToReadStateFile
  | FailedToUnmarshalState
  | FailedToCreateStateDirectory
  | FailedToMarshalState
  | FailedToWriteStateFile

subsection \<open>Encoding\<close>

text \<open>
  \<^verbatim>\<open>Time.MarshalJSON\<close> refuses an instant whose year is outside 0 .. 9999; for a UTC
  instant the bounds are the first nanosecond of year 0 and of year 10000.
\<close>

definition startOfYear0 :: Time where
  "startOfYear0 = - 62167219200 * 1000000000"

definition startOfYear10000 :: Time where
  "startOfYear10000 = 253402300800 * 1000000000"

definition time_MarshalJSON :: "Time \<Rightarrow> json option" where
  "time_MarshalJSON t =
     (if t < startOfYear0 \<or> startOfYear10000 \<le> t then None else Some (JTime t))"

text \<open>
  \<^verbatim>\<open>json.MarshalIndent(state, "", "  ")\<close> with the struct tags of \<^verbatim>\<open>State\<close>:
  \<^verbatim>\<open>was_on_call\<close> is always written, and \<^verbatim>\<open>last_advance_notification_sent\<close>
  carries \<^verbatim>\<open>omitempty\<close>, so a nil pointer writes no member at all. \<open>None\<close> is the
  error of the encoder.
\<close>

definition json_MarshalIndent :: "State \<Rightarrow> FileData option" where
  "json_MarshalIndent state =
     (case LastAdvanceNotificationSent state of
        None \<Rightarrow> Some (JSON (JObject [(''was_on_call'', JBool (WasOnCall state))]))
      | Some t \<Rightarrow>
          (case time_MarshalJSON t of
             None \<Rightarrow> None
           | Some j \<Rightarrow>
               Some (JSON (JObject [(''was_on_call'', JBool (WasOnCall state)),
                                    (''last_advance_notification_sent'', j)]))))"

subsection \<open>Decoding\<close>

text \<open>
  \<^verbatim>\<open>json.Unmarshal\<close> matches a member's key with a field's name exactly or, failing
  that, without regard to case. The two names of \<^verbatim>\<open>State\<close> differ also when case is
  disregarded, so a key selects a field when their folded forms are equal. The folding
  below is the one of ASCII letters; bytes outside ASCII are kept as they are.
\<close>

definition foldByte :: "char \<Rightarrow> char" where
  "foldByte c =
     (case map_of (zip ''abcdefghijklmnopqrstuvwxyz'' ''ABCDEFGHIJKLMNOPQRSTUVWXYZ'') c of
        None \<Rightarrow> c
      | Some u \<Rightarrow> u)"

definition foldName :: "string \<Rightarrow> string" where
  "foldName = map foldByte"

text \<open>
  A \<^verbatim>\<open>bool\<close> field takes \<^verbatim>\<open>true\<close> or \<^verbatim>\<open>false\<close>, is left alone by
  \<^verbatim>\<open>null\<close>, and any other value is a type error.
\<close>

fun decodeWasOnCall :: "json \<Rightarrow> State \<Rightarrow> State option" where
  "decodeWasOnCall (JBool b) state = Some (state\<lparr>WasOnCall := b\<rparr>)"
| "decodeWasOnCall JNull state = Some state"
| "decodeWasOnCall _ state = None"

text \<open>
  A \<^verbatim>\<open>*time.Time\<close> field is set to nil by \<^verbatim>\<open>null\<close>; any other value goes to
  \<^verbatim>\<open>Time.UnmarshalJSON\<close>, which accepts an RFC 3339 string only.
\<close>

fun decodeLastAdvanceNotificationSent :: "json \<Rightarrow> State \<Rightarrow> State option" where
  "decodeLastAdvanceNotificationSent JNull state =
     Some (state\<lparr>LastAdvanceNotificationSent := None\<rparr>)"
| "decodeLastAdvanceNotificationSent (JTime t) state =
     Some (state\<lparr>LastAdvanceNotificationSent := Some t\<rparr>)"
| "decodeLastAdvanceNotificationSent _ state = None"

definition decodeMember :: "string \<times> json \<Rightarrow> State \<Rightarrow> State option" where
  "decodeMember kv state =
     (if foldName (fst kv) = foldName ''was_on_call''
        then decodeWasOnCall (snd kv) state
      else if foldName (fst kv) = foldName ''last_advance_notification_sent''
        then decodeLastAdvanceNotificationSent (snd kv) state
      else Some state)"

text \<open>The members are decoded in the order of the text; an unknown key is skipped.\<close>

fun decodeObject :: "(string \<times> json) list \<Rightarrow> State \<Rightarrow> State option" where
  "decodeObject [] state = Some state"
| "decodeObject (kv # kvs) state =
     (case decodeMember kv state of
        None \<Rightarrow> None
      | Some state' \<Rightarrow> decodeObject kvs state')"

text \<open>
  \<^verbatim>\<open>var state State; json.Unmarshal(data, &state)\<close>: the decoder starts from the zero
  \<^verbatim>\<open>State\<close>. Text that is not JSON is a syntax error, \<^verbatim>\<open>null\<close> leaves the struct as it
  is, an object is decoded member by member, and every other value is a type error.
  \<open>None\<close> is the error of the decoder.
\<close>

definition zeroState :: State where
  "zeroState = \<lparr>WasOnCall = False, LastAdvanceNotificationSent = None\<rparr>"

fun json_Unmarshal :: "FileData \<Rightarrow> State option" where
  "json_Unmarshal NotJSON = None"
| "json_Unmarshal (JSON JNull) = Some zeroState"
| "json_Unmarshal (JSON (JObject kvs)) = decodeObject kvs zeroState"
| "json_Unmarshal (JSON _) = None"

subsection \<open>Load and Save\<close>

text \<open>
  \<^verbatim>\<open>Load\<close>: the default state when the file does not exist; otherwise the file is
  read and decoded, and each failure is returned. \<open>readFails\<close> says whether
  \<^verbatim>\<open>os.ReadFile\<close> returns an error.
\<close>

definition Load :: "bool \<Rightarrow> Disk \<Rightarrow> StateError + State" where
  "Load readFails disk =
     (case disk of
        None \<Rightarrow> Inr \<lparr>WasOnCall = False, LastAdvanceNotificationSent = None\<rparr>
      | Some data \<Rightarrow>
          if readFails then Inl FailedToReadStateFile
          else
            (case json_Unmarshal data of
               None \<Rightarrow> Inl FailedToUnmarshalState
             | Some state \<Rightarrow> Inr state))"

text \<open>
  What \<^verbatim>\<open>os.WriteFile\<close> does: it succeeds, and the file holds the bytes written, or it
  fails and leaves the file in the state given (the call truncates the file before it
  writes).
\<close>

datatype WriteOutcome = WriteOK | WriteFailed Disk

text \<open>
  \<^verbatim>\<open>Save\<close>: create the directory, encode, write. The result is the error returned
  (\<open>None\<close> for nil) and the file afterwards. \<open>mkdirFails\<close> says whether
  \<^verbatim>\<open>os.MkdirAll\<close> returns an error.
\<close>

definition Save :: "bool \<Rightarrow> WriteOutcome \<Rightarrow> State \<Rightarrow> Disk \<Rightarrow> StateError option \<times> Disk" where
  "Save mkdirFails writeOutcome state disk =
     (if mkdirFails then (Some FailedToCreateStateDirectory, disk)
      else
        (case json_MarshalIndent state of
           None \<Rightarrow> (Some FailedToMarshalState, disk)
         | Some data \<Rightarrow>
             (case writeOutcome of
                WriteFailed left \<Rightarrow> (Some FailedToWriteStateFile, left)
              | WriteOK \<Rightarrow> (None, Some data))))"

text \<open>
  A state is valid when its timestamp, if present, has a year in 0 .. 9999, the years an
  ISO 8601 timestamp of the state file can show.
\<close>

definition validState :: "State \<Rightarrow> bool" where
  "validState state =
     (case LastAdvanceNotificationSent state of
        None \<Rightarrow> True
      | Some t \<Rightarrow> startOfYear0 \<le> t \<and> t < startOfYear10000)"

lemma Unmarshal_MarshalIndent:
  assumes "json_MarshalIndent state = Some data"
  shows "json_Unmarshal data = Some state"
proof (cases "LastAdvanceNotificationSent state")
  case None
  with assms have "data = JSON (JObject [(''was_on_call'', JBool (WasOnCall state))])"
    by (simp add: json_MarshalIndent_def)
  moreover have "state = \<lparr>WasOnCall = WasOnCall state, LastAdvanceNotificationSent = None\<rparr>"
    using None by (cases state) simp
  ultimately show ?thesis
    by (simp add: decodeMember_def zeroState_def)
next
  case (Some t)
  with assms have
    "data = JSON (JObject [(''was_on_call'', JBool (WasOnCall state)),
                           (''last_advance_notification_sent'', JTime t)])"
    by (auto simp add: json_MarshalIndent_def time_MarshalJSON_def split: if_splits)
  moreover have "state = \<lparr>WasOnCall = WasOnCall state, LastAdvanceNotificationSent = Some t\<rparr>"
    using Some by (cases state) simp
  ultimately show ?thesis
    by (simp add: decodeMember_def zeroState_def foldName_def foldByte_def)
qed

lemma MarshalIndent_valid:
  "validState state \<Longrightarrow> \<exists>data. json_MarshalIndent state = Some data"
  by (auto simp add: validState_def json_MarshalIndent_def time_MarshalJSON_def
      split: option.splits)

text \<open>
  C5. For every valid state \<open>S\<close>, with or without the advance-notification timestamp, a
  \<^verbatim>\<open>Save(S)\<close> whose directory and file operations succeed returns no error, and the
  \<^verbatim>\<open>Load()\<close> that follows returns \<open>S\<close>; the same holds after every \<^verbatim>\<open>Save\<close> that
  returned no error. In the encoding an absent timestamp is left out: the object written
  has the member \<^verbatim>\<open>was_on_call\<close> alone, and no \<^verbatim>\<open>null\<close>.
\<close>

theorem Save_Load_round_trip:
  "(validState S \<longrightarrow>
      fst (Save False WriteOK S disk) = None
      \<and> Load False (snd (Save False WriteOK S disk)) = Inr S)
   \<and> (fst (Save mkdirFails writeOutcome S disk) = None \<longrightarrow>
        Load False (snd (Save mkdirFails writeOutcome S disk)) = Inr S)
   \<and> json_MarshalIndent \<lparr>WasOnCall = b, LastAdvanceNotificationSent = None\<rparr>
        = Some (JSON (JObject [(''was_on_call'', JBool b)]))"
proof (intro conjI impI)
  assume "validState S"
  then obtain data where data: "json_MarshalIndent S = Some data"
    using MarshalIndent_valid by blast
  then show "fst (Save False WriteOK S disk) = None"
    by (simp add: Save_def)
  from data have "json_Unmarshal data = Some S"
    by (rule Unmarshal_MarshalIndent)
  with data show "Load False (snd (Save False WriteOK S disk)) = Inr S"
    by (simp add: Save_def Load_def)
next
  assume ok: "fst (Save mkdirFails writeOutcome S disk) = None"
  then obtain data where data: "json_MarshalIndent S = Some data"
    and written: "snd (Save mkdirFails writeOutcome S disk) = Some data"
    by (auto simp add: Save_def split: if_splits option.splits WriteOutcome.splits)
  from data have "json_Unmarshal data = Some S"
    by (rule Unmarshal_MarshalIndent)
  with written show "Load False (snd (Save mkdirFails writeOutcome S disk)) = Inr S"
    by (simp add: Load_def)
next
  show "json_MarshalIndent \<lparr>WasOnCall = b, LastAdvanceNotificationSent = None\<rparr>
          = Some (JSON (JObject [(''was_on_call'', JBool b)]))"
    by (simp add: json_MarshalIndent_def)
qed

theorem Save_Load_round_trip_witness:
  "validState \<lparr>WasOnCall = True, LastAdvanceNotificationSent = Some 1769342400000000000\<rparr>
   \<and> Save False WriteOK
        \<lparr>WasOnCall = True, LastAdvanceNotificationSent = Some 1769342400000000000\<rparr> None
      = (None, Some (JSON (JObject [(''was_on_call'', JBool True),
           (''last_advance_notification_sent'', JTime 1769342400000000000)])))
   \<and> Load False (Some (JSON (JObject [(''was_on_call'', JBool True),
           (''last_advance_notification_sent'', JTime 1769342400000000000)])))
      = Inr \<lparr>WasOnCall = True, LastAdvanceNotificationSent = Some 1769342400000000000\<rparr>
   \<and> Load False
        (snd (Save False WriteOK \<lparr>WasOnCall = True, LastAdvanceNotificationSent = None\<rparr>
                (Some NotJSON)))
      = Inr \<lparr>WasOnCall = True, LastAdvanceNotificationSent = None\<rparr>"
  using
    Save_Load_round_trip
      [of "\<lparr>WasOnCall = True, LastAdvanceNotificationSent = Some 1769342400000000000\<rparr>"
          None False WriteOK True]
    Save_Load_round_trip
      [of "\<lparr>WasOnCall = True, LastAdvanceNotificationSent = None\<rparr>"
          "Some NotJSON" False WriteOK True]
  by (simp add: validState_def startOfYear0_def startOfYear10000_def Save_def
      json_MarshalIndent_def time_MarshalJSON_def)

text \<open>
  C6. \<^verbatim>\<open>Load()\<close> returns the default state, off call and with no timestamp, and no
  error when the file does not exist. When the file exists and cannot be read, or its
  content cannot be decoded, \<^verbatim>\<open>Load()\<close> returns an error; it returns a state for an
  existing file only when the file was read and that state was decoded from it.
\<close>

theorem Load_default_or_error:
  "Load readFails None = Inr \<lparr>WasOnCall = False, LastAdvanceNotificationSent = None\<rparr>
   \<and> Load True (Some data) = Inl FailedToReadStateFile
   \<and> (json_Unmarshal data = None \<longrightarrow> Load False (Some data) = Inl FailedToUnmarshalState)
   \<and> (Load readFails (Some data) = Inr state \<longleftrightarrow>
        readFails = False \<and> json_Unmarshal data = Some state)"
  by (auto simp add: Load_def split: option.splits)

theorem Load_default_or_error_witness:
  "Load False None = Inr \<lparr>WasOnCall = False, LastAdvanceNotificationSent = None\<rparr>
   \<and> Load False (Some NotJSON) = Inl FailedToUnmarshalState
   \<and> Load False (Some (JSON (JObject [(''was_on_call'', JString ''yes'')])))
        = Inl FailedToUnmarshalState
   \<and> Load False (Some (JSON (JObject [(''last_advance_notification_sent'', JString ''soon'')])))
        = Inl FailedToUnmarshalState
   \<and> Load True (Some (JSON (JObject [(''was_on_call'', JBool True)])))
        = Inl FailedToReadStateFile"
  using
    Load_default_or_error [of False NotJSON]
    Load_default_or_error [of False "JSON (JObject [(''was_on_call'', JString ''yes'')])"]
    Load_default_or_error
      [of False "JSON (JObject [(''last_advance_notification_sent'', JString ''soon'')])"]
    Load_default_or_error [of True "JSON (JObject [(''was_on_call'', JBool True)])"]
  by (simp add: decodeMember_def foldName_def foldByte_def)

section \<open>The dedup marker\<close>

text \<open>
  C9. After \<^verbatim>\<open>RecordAdvanceNotificationSent(s)\<close> at the instant \<open>t\<close>,
  \<^verbatim>\<open>ShouldSendAdvanceNotification\<close> on the recorded state is false for every shift start
  and every advance window at every instant less than 24 hours after \<open>t\<close>.
\<close>

theorem recorded_marker_suppresses:
  assumes "now - t < 24 * Hour"
  shows "\<not> ShouldSendAdvanceNotification now (RecordAdvanceNotificationSent t s)
             shiftStartTime advanceWindow"
proof -
  have "time_Sub now t < 24 * Hour"
    using assms by (simp add: time_Sub_less_day_iff)
  then show ?thesis
    by (simp add: ShouldSendAdvanceNotification_def RecordAdvanceNotificationSent_def Let_def)
qed

theorem recorded_marker_suppresses_witness:
  "(23 * Hour + 1800000000000) - 0 < 24 * Hour
   \<and> \<not> ShouldSendAdvanceNotification (23 * Hour + 1800000000000)
          (RecordAdvanceNotificationSent 0
             \<lparr>WasOnCall = False, LastAdvanceNotificationSent = None\<rparr>)
          (23 * Hour + 2 * 1800000000000 - 1) Hour"
proof -
  have h: "(23 * Hour + 1800000000000) - 0 < 24 * Hour"
    by (simp add: Hour_def)
  show ?thesis
    using h recorded_marker_suppresses [OF h] by simp
qed

text \<open>
  C10. \<^verbatim>\<open>RecordAdvanceNotificationSent(state)\<close> changes the field
  \<^verbatim>\<open>LastAdvanceNotificationSent\<close> and nothing else: \<^verbatim>\<open>WasOnCall\<close> is the same before
  and after the call, for every state.
\<close>

theorem RecordAdvanceNotificationSent_frame:
  "WasOnCall (RecordAdvanceNotificationSent now state) = WasOnCall state
   \<and> RecordAdvanceNotificationSent now state
       = \<lparr>WasOnCall = WasOnCall state, LastAdvanceNotificationSent = Some now\<rparr>"
  by (cases state) (simp add: RecordAdvanceNotificationSent_def)

theorem RecordAdvanceNotificationSent_frame_witness:
  "WasOnCall (RecordAdvanceNotificationSent 9
      \<lparr>WasOnCall = True, LastAdvanceNotificationSent = Some 4\<rparr>)
   \<and> \<not> WasOnCall (RecordAdvanceNotificationSent 9
      \<lparr>WasOnCall = False, LastAdvanceNotificationSent = None\<rparr>)"
  using
    RecordAdvanceNotificationSent_frame
      [of 9 "\<lparr>WasOnCall = True, LastAdvanceNotificationSent = Some 4\<rparr>"]
    RecordAdvanceNotificationSent_frame
      [of 9 "\<lparr>WasOnCall = False, LastAdvanceNotificationSent = None\<rparr>"]
  by simp

section \<open>The polling loop\<close>

datatype NotificationEvent = EventShiftStarted | EventUpcomingShift | EventShiftEnded

record UpcomingShift =
  StartTime :: Time
  EndTime :: Time

text \<open>Of the configuration the loop reads the advance window only.\<close>

record Config =
  AdvanceNotificationTime :: Duration

text \<open>
  What the collaborators answer during one tick of the ticker: the on-call query and the
  upcoming-shift query (\<open>None\<close> is the error of the query, \<open>Some None\<close> is no shift
  found), whether \<^verbatim>\<open>NotifyWithEvent\<close> returns nil for an event and its timestamp, the
  three readings of the clock (inside \<^verbatim>\<open>ShouldSendAdvanceNotification\<close>, inside
  \<^verbatim>\<open>RecordAdvanceNotificationSent\<close>, and for the shift-started event), and how the
  directory and file operations of \<^verbatim>\<open>Save\<close> end.
\<close>

record Tick =
  IsOnCall :: "bool option"
  GetUpcomingShift :: "UpcomingShift option option"
  NotifyWithEvent :: "NotificationEvent \<Rightarrow> Time \<Rightarrow> bool"
  nowShouldSend :: Time
  nowRecord :: Time
  nowShiftStarted :: Time
  tickMkdirFails :: bool
  tickWriteOutcome :: WriteOutcome

text \<open>
  The loop's variables and its trace: the in-memory state, the state file, the calls of
  \<^verbatim>\<open>NotifyWithEvent\<close> in order (delivered or not), and the states handed to
  \<^verbatim>\<open>Save\<close> in order.
\<close>

record Run =
  currentState :: State
  disk :: Disk
  notified :: "(NotificationEvent \<times> Time) list"
  saved :: "State list"

text \<open>
  The advance-notification part of the loop body: the state afterwards and the calls of
  \<^verbatim>\<open>NotifyWithEvent\<close> it made.
\<close>

definition advanceNotificationStep ::
    "Config \<Rightarrow> Tick \<Rightarrow> State \<Rightarrow> State \<times> (NotificationEvent \<times> Time) list" where
  "advanceNotificationStep cfg tk state =
     (if AdvanceNotificationTime cfg > 0 then
        (case GetUpcomingShift tk of
           None \<Rightarrow> (state, [])
         | Some None \<Rightarrow> (state, [])
         | Some (Some upcomingShift) \<Rightarrow>
             if ShouldSendAdvanceNotification (nowShouldSend tk) state
                  (StartTime upcomingShift) (AdvanceNotificationTime cfg)
             then
               (if NotifyWithEvent tk EventUpcomingShift (StartTime upcomingShift)
                then (RecordAdvanceNotificationSent (nowRecord tk) state,
                      [(EventUpcomingShift, StartTime upcomingShift)])
                else (state, [(EventUpcomingShift, StartTime upcomingShift)]))
             else (state, []))
      else (state, []))"

text \<open>
  One tick of \<^verbatim>\<open>runPollingLoop\<close>. A failed on-call query skips the rest of the body.
  The result of the shift-started delivery and the error of \<^verbatim>\<open>Save\<close> are logged and
  change nothing else.
\<close>

definition pollCycle :: "Config \<Rightarrow> Tick \<Rightarrow> Run \<Rightarrow> Run" where
  "pollCycle cfg tk run =
     (case IsOnCall tk of
        None \<Rightarrow> run
      | Some isOnCall \<Rightarrow>
          let advance = advanceNotificationStep cfg tk (currentState run);
              started =
                (if HasTransitionToOnCall (fst advance) isOnCall
                 then [(EventShiftStarted, nowShiftStarted tk)] else []);
              state = (fst advance)\<lparr>WasOnCall := isOnCall\<rparr>;
              written = Save (tickMkdirFails tk) (tickWriteOutcome tk) state (disk run)
          in \<lparr>currentState = state,
              disk = snd written,
              notified = notified run @ snd advance @ started,
              saved = saved run @ [state]\<rparr>)"

text \<open>The ticks the loop handles before its context is cancelled.\<close>

primrec pollLoop :: "Config \<Rightarrow> Tick list \<Rightarrow> Run \<Rightarrow> Run" where
  "pollLoop cfg [] run = run"
| "pollLoop cfg (tk # tks) run = pollLoop cfg tks (pollCycle cfg tk run)"

text \<open>
  \<^verbatim>\<open>runPollingLoop\<close>: load the initial state, returning the error when that fails, then
  handle the ticks.
\<close>

definition runPollingLoop ::
    "Config \<Rightarrow> bool \<Rightarrow> Disk \<Rightarrow> Tick list \<Rightarrow> StateError + Run" where
  "runPollingLoop cfg readFails disk0 ticks =
     (case Load readFails disk0 of
        Inl err \<Rightarrow> Inl err
      | Inr state \<Rightarrow>
          Inr (pollLoop cfg ticks
                \<lparr>currentState = state, disk = disk0, notified = [], saved = []\<rparr>))"

text \<open>How often an event kind occurs among the calls of \<^verbatim>\<open>NotifyWithEvent\<close>.\<close>

definition countEvent :: "NotificationEvent \<Rightarrow> (NotificationEvent \<times> Time) list \<Rightarrow> nat" where
  "countEvent event calls = length (filter (\<lambda>call. fst call = event) calls)"

lemma countEvent_append:
  "countEvent event (xs @ ys) = countEvent event xs + countEvent event ys"
  by (simp add: countEvent_def)

lemma countEvent_Nil: "countEvent event [] = 0"
  by (simp add: countEvent_def)

lemma countEvent_Cons:
  "countEvent event (call # calls)
     = (if fst call = event then 1 else 0) + countEvent event calls"
  by (simp add: countEvent_def)

lemma advanceNotificationStep_WasOnCall:
  "WasOnCall (fst (advanceNotificationStep cfg tk state)) = WasOnCall state"
  by (simp add: advanceNotificationStep_def RecordAdvanceNotificationSent_def
      split: option.splits)

lemma advanceNotificationStep_no_ShiftStarted:
  "countEvent EventShiftStarted (snd (advanceNotificationStep cfg tk state)) = 0"
  by (simp add: advanceNotificationStep_def countEvent_Nil countEvent_Cons
      split: option.splits)

lemma advanceNotificationStep_marker:
  "LastAdvanceNotificationSent (fst (advanceNotificationStep cfg tk state))
     = LastAdvanceNotificationSent state
   \<or> LastAdvanceNotificationSent (fst (advanceNotificationStep cfg tk state))
     = Some (nowRecord tk)"
  by (simp add: advanceNotificationStep_def RecordAdvanceNotificationSent_def
      split: option.splits)

section \<open>The shift-started event\<close>

lemma pollCycle_notified:
  assumes "IsOnCall tk = Some isOnCall"
  shows "countEvent EventShiftStarted (notified (pollCycle cfg tk run))
           = countEvent EventShiftStarted (notified run)
             + (if \<not> WasOnCall (currentState run) \<and> isOnCall then 1 else 0)"
  using assms
  by (simp add: pollCycle_def Let_def countEvent_append
      advanceNotificationStep_no_ShiftStarted advanceNotificationStep_WasOnCall
      HasTransitionToOnCall_def countEvent_Nil countEvent_Cons)

lemma pollCycle_currentState:
  assumes "IsOnCall tk = Some isOnCall"
  shows "currentState (pollCycle cfg tk run)
           = (fst (advanceNotificationStep cfg tk (currentState run)))\<lparr>WasOnCall := isOnCall\<rparr>"
    and "saved (pollCycle cfg tk run) = saved run @ [currentState (pollCycle cfg tk run)]"
    and "disk (pollCycle cfg tk run)
           = snd (Save (tickMkdirFails tk) (tickWriteOutcome tk)
                    (currentState (pollCycle cfg tk run)) (disk run))"
  using assms by (simp_all add: pollCycle_def Let_def)

lemma Save_ok_Load:
  assumes "fst (Save mkdirFails writeOutcome state disk0) = None"
  shows "Load False (snd (Save mkdirFails writeOutcome state disk0)) = Inr state"
proof -
  from assms obtain data where data: "json_MarshalIndent state = Some data"
    and written: "snd (Save mkdirFails writeOutcome state disk0) = Some data"
    by (auto simp add: Save_def split: if_splits option.splits WriteOutcome.splits)
  from data have "json_Unmarshal data = Some state"
    by (rule Unmarshal_MarshalIndent)
  with written show ?thesis
    by (simp add: Load_def)
qed

text \<open>
  C3. The loop starts on a store with no record, so it loads the default state. A first
  poll cycle that observes on-call calls \<^verbatim>\<open>NotifyWithEvent\<close> with the shift-started event
  exactly once, ends with \<^verbatim>\<open>WasOnCall\<close> true in memory and hands that state to
  \<^verbatim>\<open>Save\<close>; when that \<^verbatim>\<open>Save\<close> returns no error, the state file decodes to that
  state. A second cycle that observes on-call again adds no shift-started event.
\<close>

theorem first_on_call_cycle_fires_once:
  assumes "IsOnCall tk1 = Some True" and "IsOnCall tk2 = Some True"
  shows
    "\<exists>run1 run2.
       runPollingLoop cfg readFails None [tk1] = Inr run1
       \<and> runPollingLoop cfg readFails None [tk1, tk2] = Inr run2
       \<and> countEvent EventShiftStarted (notified run1) = 1
       \<and> WasOnCall (currentState run1) = True
       \<and> saved run1 = [currentState run1]
       \<and> (if fst (Save (tickMkdirFails tk1) (tickWriteOutcome tk1) (currentState run1) None)
               = None
          then Load False (disk run1) = Inr (currentState run1)
          else True)
       \<and> (if tickMkdirFails tk1 = False \<and> tickWriteOutcome tk1 = WriteOK
               \<and> startOfYear0 \<le> nowRecord tk1 \<and> nowRecord tk1 < startOfYear10000
          then Load False (disk run1) = Inr (currentState run1)
          else True)
       \<and> countEvent EventShiftStarted (notified run2) = 1
       \<and> WasOnCall (currentState run2) = True"
proof -
  define run0 :: Run where
    "run0 = \<lparr>currentState = \<lparr>WasOnCall = False, LastAdvanceNotificationSent = None\<rparr>,
             disk = None, notified = [], saved = []\<rparr>"
  define run1 where "run1 = pollCycle cfg tk1 run0"
  define run2 where "run2 = pollCycle cfg tk2 run1"
  have loop1: "runPollingLoop cfg readFails None [tk1] = Inr run1"
    by (simp add: runPollingLoop_def Load_def run1_def run0_def)
  have loop2: "runPollingLoop cfg readFails None [tk1, tk2] = Inr run2"
    by (simp add: runPollingLoop_def Load_def run2_def run1_def run0_def)
  have fired1: "countEvent EventShiftStarted (notified run1) = 1"
    unfolding run1_def using pollCycle_notified [OF assms(1), of cfg run0]
    by (simp add: run0_def countEvent_Nil)
  have on1: "WasOnCall (currentState run1) = True"
    unfolding run1_def by (simp add: pollCycle_currentState(1) [OF assms(1)])
  have saved1: "saved run1 = [currentState run1]"
    unfolding run1_def using pollCycle_currentState(2) [OF assms(1), of cfg run0]
    by (simp add: run0_def)
  have disk1: "disk run1
      = snd (Save (tickMkdirFails tk1) (tickWriteOutcome tk1) (currentState run1) None)"
    unfolding run1_def using pollCycle_currentState(3) [OF assms(1), of cfg run0]
    by (simp add: run0_def)
  have persisted:
    "if fst (Save (tickMkdirFails tk1) (tickWriteOutcome tk1) (currentState run1) None) = None
     then Load False (disk run1) = Inr (currentState run1) else True"
    using Save_ok_Load [of "tickMkdirFails tk1" "tickWriteOutcome tk1" "currentState run1" None]
    by (simp add: disk1)
  have "LastAdvanceNotificationSent (currentState run1) = None
      \<or> LastAdvanceNotificationSent (currentState run1) = Some (nowRecord tk1)"
    unfolding run1_def
    using advanceNotificationStep_marker [of cfg tk1 "currentState run0"]
    by (simp add: pollCycle_currentState(1) [OF assms(1)] run0_def)
  then have valid1:
    "startOfYear0 \<le> nowRecord tk1 \<Longrightarrow> nowRecord tk1 < startOfYear10000
       \<Longrightarrow> validState (currentState run1)"
    by (auto simp add: validState_def)
  have persisted_env:
    "if tickMkdirFails tk1 = False \<and> tickWriteOutcome tk1 = WriteOK
          \<and> startOfYear0 \<le> nowRecord tk1 \<and> nowRecord tk1 < startOfYear10000
     then Load False (disk run1) = Inr (currentState run1) else True"
  proof (cases "tickMkdirFails tk1 = False \<and> tickWriteOutcome tk1 = WriteOK
          \<and> startOfYear0 \<le> nowRecord tk1 \<and> nowRecord tk1 < startOfYear10000")
    case True
    then obtain data where "json_MarshalIndent (currentState run1) = Some data"
      using valid1 MarshalIndent_valid by blast
    with True have
      "fst (Save (tickMkdirFails tk1) (tickWriteOutcome tk1) (currentState run1) None) = None"
      by (simp add: Save_def)
    with persisted True show ?thesis by simp
  next
    case False
    then show ?thesis by auto
  qed
  have fired2: "countEvent EventShiftStarted (notified run2) = 1"
    unfolding run2_def using pollCycle_notified [OF assms(2), of cfg run1] fired1 on1
    by simp
  have on2: "WasOnCall (currentState run2) = True"
    unfolding run2_def by (simp add: pollCycle_currentState(1) [OF assms(2)])
  from loop1 loop2 fired1 on1 saved1 persisted persisted_env fired2 on2 show ?thesis
    by blast
qed

text \<open>A tick on which everything works and the user is on call, with no advance window.\<close>

definition onCallTick :: Tick where
  "onCallTick =
     \<lparr>IsOnCall = Some True, GetUpcomingShift = Some None,
      NotifyWithEvent = (\<lambda>event at. True),
      nowShouldSend = 1769342400000000000, nowRecord = 1769342400000000001,
      nowShiftStarted = 1769342400000000002,
      tickMkdirFails = False, tickWriteOutcome = WriteOK\<rparr>"

theorem first_on_call_cycle_fires_once_witness:
  "IsOnCall onCallTick = Some True
   \<and> runPollingLoop \<lparr>AdvanceNotificationTime = 0\<rparr> False None [onCallTick]
      = Inr \<lparr>currentState = \<lparr>WasOnCall = True, LastAdvanceNotificationSent = None\<rparr>,
             disk = Some (JSON (JObject [(''was_on_call'', JBool True)])),
             notified = [(EventShiftStarted, 1769342400000000002)],
             saved = [\<lparr>WasOnCall = True, LastAdvanceNotificationSent = None\<rparr>]\<rparr>
   \<and> (\<exists>run2. runPollingLoop \<lparr>AdvanceNotificationTime = 0\<rparr> False None
                  [onCallTick, onCallTick] = Inr run2
          \<and> countEvent EventShiftStarted (notified run2) = 1)"
  using first_on_call_cycle_fires_once
    [of onCallTick onCallTick "\<lparr>AdvanceNotificationTime = 0\<rparr>" False]
  by (auto simp add: onCallTick_def runPollingLoop_def Load_def pollCycle_def Let_def
      advanceNotificationStep_def HasTransitionToOnCall_def Save_def json_MarshalIndent_def)

section \<open>The advance notification in the loop\<close>

lemma ShouldSendAdvanceNotification_WasOnCall:
  "ShouldSendAdvanceNotification now (state\<lparr>WasOnCall := b\<rparr>) shiftStartTime advanceTime
     = ShouldSendAdvanceNotification now state shiftStartTime advanceTime"
  by (simp add: ShouldSendAdvanceNotification_def)

lemma ShouldSendAdvanceNotification_window:
  "ShouldSendAdvanceNotification now state shiftStartTime advanceTime \<Longrightarrow> 0 < advanceTime"
  by (simp add: ShouldSendAdvanceNotification_def split: if_splits)

text \<open>
  C4. In a poll cycle in which \<^verbatim>\<open>ShouldSendAdvanceNotification\<close> is true, the loop calls
  \<^verbatim>\<open>NotifyWithEvent\<close> once with the upcoming-shift event; when that call succeeds the
  state is the one \<^verbatim>\<open>RecordAdvanceNotificationSent\<close> leaves, and when it fails the step
  leaves the state as it was, so that the cycle ends with the old marker and the decision
  of \<^verbatim>\<open>ShouldSendAdvanceNotification\<close> in the next cycle is the one the old state gives.
\<close>

theorem advance_marker_only_on_delivery:
  assumes "IsOnCall tk = Some isOnCall"
    and "GetUpcomingShift tk = Some (Some shift)"
    and "ShouldSendAdvanceNotification (nowShouldSend tk) (currentState run)
           (StartTime shift) (AdvanceNotificationTime cfg)"
  shows
    "advanceNotificationStep cfg tk (currentState run)
       = (if NotifyWithEvent tk EventUpcomingShift (StartTime shift)
          then RecordAdvanceNotificationSent (nowRecord tk) (currentState run)
          else currentState run,
          [(EventUpcomingShift, StartTime shift)])
     \<and> currentState (pollCycle cfg tk run)
       = (if NotifyWithEvent tk EventUpcomingShift (StartTime shift)
          then RecordAdvanceNotificationSent (nowRecord tk) (currentState run)
          else currentState run)\<lparr>WasOnCall := isOnCall\<rparr>
     \<and> (if NotifyWithEvent tk EventUpcomingShift (StartTime shift)
        then LastAdvanceNotificationSent (currentState (pollCycle cfg tk run))
               = Some (nowRecord tk)
        else LastAdvanceNotificationSent (currentState (pollCycle cfg tk run))
               = LastAdvanceNotificationSent (currentState run)
             \<and> ShouldSendAdvanceNotification now' (currentState (pollCycle cfg tk run))
                 shiftStartTime' advanceWindow'
               = ShouldSendAdvanceNotification now' (currentState run)
                   shiftStartTime' advanceWindow')"
proof -
  have window: "0 < AdvanceNotificationTime cfg"
    using assms(3) by (rule ShouldSendAdvanceNotification_window)
  have step: "advanceNotificationStep cfg tk (currentState run)
       = (if NotifyWithEvent tk EventUpcomingShift (StartTime shift)
          then RecordAdvanceNotificationSent (nowRecord tk) (currentState run)
          else currentState run,
          [(EventUpcomingShift, StartTime shift)])"
    using window assms(2,3) by (simp add: advanceNotificationStep_def)
  have cycle: "currentState (pollCycle cfg tk run)
       = (if NotifyWithEvent tk EventUpcomingShift (StartTime shift)
          then RecordAdvanceNotificationSent (nowRecord tk) (currentState run)
          else currentState run)\<lparr>WasOnCall := isOnCall\<rparr>"
    by (simp add: pollCycle_currentState(1) [OF assms(1)] step)
  show ?thesis
  proof (cases "NotifyWithEvent tk EventUpcomingShift (StartTime shift)")
    case True
    with step cycle show ?thesis
      by (simp add: RecordAdvanceNotificationSent_def)
  next
    case False
    with step cycle show ?thesis
      by (simp add: ShouldSendAdvanceNotification_WasOnCall)
  qed
qed

text \<open>
  A tick half an hour before a shift, off call, on which the delivery of the
  upcoming-shift event fails, and the same tick with a delivery that succeeds.
\<close>

definition failedDeliveryTick :: Tick where
  "failedDeliveryTick =
     \<lparr>IsOnCall = Some False,
      GetUpcomingShift =
        Some (Some \<lparr>StartTime = 1769344200000000000, EndTime = 1769947200000000000\<rparr>),
      NotifyWithEvent = (\<lambda>event at. False),
      nowShouldSend = 1769342400000000000, nowRecord = 1769342400000000001,
      nowShiftStarted = 1769342400000000002,
      tickMkdirFails = False, tickWriteOutcome = WriteOK\<rparr>"

definition deliveredTick :: Tick where
  "deliveredTick = failedDeliveryTick\<lparr>NotifyWithEvent := (\<lambda>event at. True)\<rparr>"

definition freshRun :: Run where
  "freshRun =
     \<lparr>currentState = \<lparr>WasOnCall = False, LastAdvanceNotificationSent = None\<rparr>,
      disk = None, notified = [], saved = []\<rparr>"

theorem advance_marker_only_on_delivery_witness:
  "ShouldSendAdvanceNotification (nowShouldSend failedDeliveryTick) (currentState freshRun)
     1769344200000000000 Hour
   \<and> currentState (pollCycle \<lparr>AdvanceNotificationTime = Hour\<rparr> failedDeliveryTick freshRun)
      = \<lparr>WasOnCall = False, LastAdvanceNotificationSent = None\<rparr>
   \<and> currentState (pollCycle \<lparr>AdvanceNotificationTime = Hour\<rparr> deliveredTick freshRun)
      = \<lparr>WasOnCall = False, LastAdvanceNotificationSent = Some 1769342400000000001\<rparr>"
proof -
  let ?shift = "\<lparr>StartTime = 1769344200000000000, EndTime = 1769947200000000000\<rparr>"
  let ?cfg = "\<lparr>AdvanceNotificationTime = Hour\<rparr>"
  have send: "ShouldSendAdvanceNotification (nowShouldSend failedDeliveryTick)
      (currentState freshRun) (StartTime ?shift) (AdvanceNotificationTime ?cfg)"
    by (simp add: ShouldSendAdvanceNotification_def failedDeliveryTick_def freshRun_def
        time_Sub_def Hour_def minDuration_def maxDuration_def)
  have send': "ShouldSendAdvanceNotification (nowShouldSend deliveredTick)
      (currentState freshRun) (StartTime ?shift) (AdvanceNotificationTime ?cfg)"
    using send by (simp add: deliveredTick_def)
  have failed:
    "currentState (pollCycle ?cfg failedDeliveryTick freshRun)
       = \<lparr>WasOnCall = False, LastAdvanceNotificationSent = None\<rparr>"
    using advance_marker_only_on_delivery
      [of failedDeliveryTick False ?shift freshRun ?cfg, OF _ _ send]
    by (simp add: failedDeliveryTick_def freshRun_def)
  have delivered:
    "currentState (pollCycle ?cfg deliveredTick freshRun)
       = \<lparr>WasOnCall = False, LastAdvanceNotificationSent = Some 1769342400000000001\<rparr>"
    using advance_marker_only_on_delivery
      [of deliveredTick False ?shift freshRun ?cfg, OF _ _ send']
    by (simp add: deliveredTick_def failedDeliveryTick_def freshRun_def
        RecordAdvanceNotificationSent_def)
  from send failed delivered show ?thesis
    by simp
qed

section \<open>The marker over the life of the process\<close>

text \<open>
  The order of two values of the marker: an absent marker precedes every marker, and a
  present one precedes the present markers that are not earlier.
\<close>

definition markerLe :: "Time option \<Rightarrow> Time option \<Rightarrow> bool" where
  "markerLe a b =
     (case a of
        None \<Rightarrow> True
      | Some x \<Rightarrow> (case b of None \<Rightarrow> False | Some y \<Rightarrow> x \<le> y))"

lemma markerLe_refl: "markerLe a a"
  by (simp add: markerLe_def split: option.splits)

lemma markerLe_trans: "markerLe a b \<Longrightarrow> markerLe b c \<Longrightarrow> markerLe a c"
  by (auto simp add: markerLe_def split: option.splits)

lemma ShouldSendAdvanceNotification_marker_old:
  assumes "ShouldSendAdvanceNotification now state shiftStartTime advanceTime"
    and "now \<le> later"
  shows "markerLe (LastAdvanceNotificationSent state) (Some later)"
proof (cases "LastAdvanceNotificationSent state")
  case None
  then show ?thesis by (simp add: markerLe_def)
next
  case (Some lastSent)
  with assms(1) have "\<not> time_Sub now lastSent < 24 * Hour"
    by (simp add: ShouldSendAdvanceNotification_def Let_def split: if_splits)
  then have "24 * Hour \<le> now - lastSent"
    by (simp add: time_Sub_less_day_iff)
  then have "lastSent \<le> now"
    by (simp add: Hour_def)
  with assms(2) Some show ?thesis
    by (simp add: markerLe_def)
qed

lemma advanceNotificationStep_marker_step:
  assumes "nowShouldSend tk \<le> nowRecord tk"
  shows "LastAdvanceNotificationSent (fst (advanceNotificationStep cfg tk state))
           = LastAdvanceNotificationSent state
         \<or> (LastAdvanceNotificationSent (fst (advanceNotificationStep cfg tk state))
              = Some (nowRecord tk)
            \<and> markerLe (LastAdvanceNotificationSent state) (Some (nowRecord tk)))"
  using assms ShouldSendAdvanceNotification_marker_old [of "nowShouldSend tk" state _ _ "nowRecord tk"]
  by (auto simp add: advanceNotificationStep_def RecordAdvanceNotificationSent_def
      split: option.splits)

lemma pollCycle_marker_step:
  assumes "nowShouldSend tk \<le> nowRecord tk"
  shows "LastAdvanceNotificationSent (currentState (pollCycle cfg tk run))
           = LastAdvanceNotificationSent (currentState run)
         \<or> (LastAdvanceNotificationSent (currentState (pollCycle cfg tk run))
              = Some (nowRecord tk)
            \<and> markerLe (LastAdvanceNotificationSent (currentState run)) (Some (nowRecord tk)))"
proof (cases "IsOnCall tk")
  case None
  then show ?thesis by (simp add: pollCycle_def)
next
  case (Some isOnCall)
  then show ?thesis
    using advanceNotificationStep_marker_step [OF assms, of cfg "currentState run"]
    by (simp add: pollCycle_currentState(1))
qed

lemma pollCycle_markerLe:
  assumes "nowShouldSend tk \<le> nowRecord tk"
  shows "markerLe (LastAdvanceNotificationSent (currentState run))
           (LastAdvanceNotificationSent (currentState (pollCycle cfg tk run)))"
  using pollCycle_marker_step [OF assms, of cfg run]
  by (auto simp add: markerLe_refl)

lemma pollCycle_saved:
  "saved (pollCycle cfg tk run) = saved run
   \<or> saved (pollCycle cfg tk run) = saved run @ [currentState (pollCycle cfg tk run)]"
  by (cases "IsOnCall tk") (simp_all add: pollCycle_def Let_def)

text \<open>
  The invariant of the loop: the states handed to \<^verbatim>\<open>Save\<close> so far are in the order of
  their markers, and none has a marker after the one in memory.
\<close>

definition savedInOrder :: "Run \<Rightarrow> bool" where
  "savedInOrder run =
     (sorted_wrt markerLe (map LastAdvanceNotificationSent (saved run))
      \<and> list_all (\<lambda>state. markerLe (LastAdvanceNotificationSent state)
                     (LastAdvanceNotificationSent (currentState run)))
          (saved run))"

lemma pollCycle_savedInOrder:
  assumes clock: "nowShouldSend tk \<le> nowRecord tk"
    and inv: "savedInOrder run"
  shows "savedInOrder (pollCycle cfg tk run)"
proof -
  let ?run' = "pollCycle cfg tk run"
  have le: "markerLe (LastAdvanceNotificationSent (currentState run))
      (LastAdvanceNotificationSent (currentState ?run'))"
    using clock by (rule pollCycle_markerLe)
  have bound: "list_all (\<lambda>state. markerLe (LastAdvanceNotificationSent state)
      (LastAdvanceNotificationSent (currentState ?run'))) (saved run)"
    using inv le by (auto simp add: savedInOrder_def list_all_iff intro: markerLe_trans)
  from pollCycle_saved [of cfg tk run] show ?thesis
  proof
    assume "saved ?run' = saved run"
    with inv bound show ?thesis
      by (simp add: savedInOrder_def)
  next
    assume "saved ?run' = saved run @ [currentState ?run']"
    with inv bound show ?thesis
      by (simp add: savedInOrder_def sorted_wrt_append list_all_iff markerLe_refl)
  qed
qed

lemma pollLoop_savedInOrder:
  assumes "list_all (\<lambda>tk. nowShouldSend tk \<le> nowRecord tk) ticks"
    and "savedInOrder run"
  shows "savedInOrder (pollLoop cfg ticks run)"
  using assms
proof (induction ticks arbitrary: run)
  case Nil
  then show ?case by simp
next
  case (Cons tk ticks)
  from Cons.prems have "savedInOrder (pollCycle cfg tk run)"
    by (simp add: pollCycle_savedInOrder)
  with Cons show ?case by simp
qed

lemma pollLoop_markerLe:
  assumes "list_all (\<lambda>tk. nowShouldSend tk \<le> nowRecord tk) ticks"
  shows "markerLe (LastAdvanceNotificationSent (currentState run))
           (LastAdvanceNotificationSent (currentState (pollLoop cfg ticks run)))"
  using assms
proof (induction ticks arbitrary: run)
  case Nil
  then show ?case by (simp add: markerLe_refl)
next
  case (Cons tk ticks)
  then have "markerLe (LastAdvanceNotificationSent (currentState run))
      (LastAdvanceNotificationSent (currentState (pollCycle cfg tk run)))"
    by (simp add: pollCycle_markerLe)
  moreover from Cons have
    "markerLe (LastAdvanceNotificationSent (currentState (pollCycle cfg tk run)))
       (LastAdvanceNotificationSent (currentState (pollLoop cfg ticks (pollCycle cfg tk run))))"
    by simp
  ultimately show ?case
    by (auto intro: markerLe_trans)
qed

lemma pollLoop_saved_after_start:
  assumes "list_all (\<lambda>tk. nowShouldSend tk \<le> nowRecord tk) ticks"
    and "list_all (\<lambda>s. markerLe m (LastAdvanceNotificationSent s)) (saved run)"
    and "markerLe m (LastAdvanceNotificationSent (currentState run))"
  shows "list_all (\<lambda>s. markerLe m (LastAdvanceNotificationSent s))
           (saved (pollLoop cfg ticks run))"
  using assms
proof (induction ticks arbitrary: run)
  case Nil
  then show ?case by simp
next
  case (Cons tk ticks)
  let ?run' = "pollCycle cfg tk run"
  from Cons.prems have cur: "markerLe m (LastAdvanceNotificationSent (currentState ?run'))"
    using pollCycle_markerLe [of tk run cfg] by (auto intro: markerLe_trans)
  with Cons.prems(2) pollCycle_saved [of cfg tk run]
  have "list_all (\<lambda>s. markerLe m (LastAdvanceNotificationSent s)) (saved ?run')"
    by auto
  with Cons cur show ?case by simp
qed

text \<open>
  C8. Over the ticks of one run of the loop, the marker \<^verbatim>\<open>LastAdvanceNotificationSent\<close>
  of the states handed to \<^verbatim>\<open>Save\<close>, once present, stays present and never gets earlier,
  starting from the state the loop began with: each cycle leaves the marker as it was or
  sets it to the clock reading of \<^verbatim>\<open>RecordAdvanceNotificationSent\<close>, which is not earlier
  than the marker it replaces. The clock is taken not to run backwards between the two
  readings of one cycle.
\<close>

theorem marker_never_decreases:
  assumes "list_all (\<lambda>tk. nowShouldSend tk \<le> nowRecord tk) ticks"
  shows
    "sorted_wrt markerLe
       (map LastAdvanceNotificationSent
          (state # saved (pollLoop cfg ticks
             \<lparr>currentState = state, disk = disk0, notified = [], saved = []\<rparr>)))
     \<and> (if tk \<in> set ticks
        then LastAdvanceNotificationSent (currentState (pollCycle cfg tk run))
               = LastAdvanceNotificationSent (currentState run)
             \<or> (LastAdvanceNotificationSent (currentState (pollCycle cfg tk run))
                  = Some (nowRecord tk)
                \<and> markerLe (LastAdvanceNotificationSent (currentState run))
                     (Some (nowRecord tk)))
        else True)"
proof -
  let ?run0 = "\<lparr>currentState = state, disk = disk0, notified = [], saved = []\<rparr>"
  have "savedInOrder ?run0"
    by (simp add: savedInOrder_def)
  with assms have "savedInOrder (pollLoop cfg ticks ?run0)"
    by (rule pollLoop_savedInOrder)
  then have sorted: "sorted_wrt markerLe
      (map LastAdvanceNotificationSent (saved (pollLoop cfg ticks ?run0)))"
    by (simp add: savedInOrder_def)
  have "list_all (\<lambda>s. markerLe (LastAdvanceNotificationSent state)
      (LastAdvanceNotificationSent s)) (saved (pollLoop cfg ticks ?run0))"
    using assms by (rule pollLoop_saved_after_start) (simp_all add: markerLe_refl)
  with sorted have whole: "sorted_wrt markerLe
      (map LastAdvanceNotificationSent (state # saved (pollLoop cfg ticks ?run0)))"
    by (simp add: list_all_iff)
  have step: "LastAdvanceNotificationSent (currentState (pollCycle cfg tk run))
        = LastAdvanceNotificationSent (currentState run)
      \<or> (LastAdvanceNotificationSent (currentState (pollCycle cfg tk run))
           = Some (nowRecord tk)
         \<and> markerLe (LastAdvanceNotificationSent (currentState run)) (Some (nowRecord tk)))"
    if "tk \<in> set ticks"
  proof -
    from that assms have "nowShouldSend tk \<le> nowRecord tk"
      by (simp add: list_all_iff)
    then show ?thesis by (rule pollCycle_marker_step)
  qed
  from whole step show ?thesis
    by simp
qed

text \<open>The tick of the next day: 25 hours later, half an hour before the next shift.\<close>

definition nextDayTick :: Tick where
  "nextDayTick =
     \<lparr>IsOnCall = Some False,
      GetUpcomingShift =
        Some (Some \<lparr>StartTime = 1769434200000000000, EndTime = 1770037200000000000\<rparr>),
      NotifyWithEvent = (\<lambda>event at. True),
      nowShouldSend = 1769432400000000000, nowRecord = 1769432400000000001,
      nowShiftStarted = 1769432400000000002,
      tickMkdirFails = False, tickWriteOutcome = WriteOK\<rparr>"

theorem marker_never_decreases_witness:
  "nowShouldSend deliveredTick \<le> nowRecord deliveredTick
   \<and> nowShouldSend failedDeliveryTick \<le> nowRecord failedDeliveryTick
   \<and> nowShouldSend nextDayTick \<le> nowRecord nextDayTick
   \<and> map LastAdvanceNotificationSent
        (saved (pollLoop \<lparr>AdvanceNotificationTime = Hour\<rparr>
                  [failedDeliveryTick, deliveredTick, failedDeliveryTick, nextDayTick]
                  freshRun))
      = [None, Some 1769342400000000001, Some 1769342400000000001,
         Some 1769432400000000001]
   \<and> sorted_wrt markerLe
        [None, None, Some 1769342400000000001, Some 1769342400000000001,
         Some 1769432400000000001]"
  using marker_never_decreases
    [of "[failedDeliveryTick, deliveredTick, failedDeliveryTick, nextDayTick]"
        "\<lparr>WasOnCall = False, LastAdvanceNotificationSent = None\<rparr>"
        "\<lparr>AdvanceNotificationTime = Hour\<rparr>" None nextDayTick freshRun]
  by (simp add: freshRun_def nextDayTick_def deliveredTick_def failedDeliveryTick_def
      pollCycle_def Let_def advanceNotificationStep_def ShouldSendAdvanceNotification_def
      RecordAdvanceNotificationSent_def time_Sub_def Hour_def minDuration_def
      maxDuration_def)

section \<open>The transition out of on-call\<close>

text \<open>
  The loop body of \<^verbatim>\<open>runPollingLoop\<close> as modelled above makes no call of
  \<^verbatim>\<open>NotifyWithEvent\<close> with the shift-ended event.
\<close>

lemma advanceNotificationStep_no_ShiftEnded:
  "countEvent EventShiftEnded (snd (advanceNotificationStep cfg tk state)) = 0"
  by (simp add: advanceNotificationStep_def countEvent_Nil countEvent_Cons
      split: option.splits)

lemma pollCycle_no_ShiftEnded:
  "countEvent EventShiftEnded (notified (pollCycle cfg tk run))
     = countEvent EventShiftEnded (notified run)"
  by (cases "IsOnCall tk")
    (simp_all add: pollCycle_def Let_def countEvent_append countEvent_Nil countEvent_Cons
      advanceNotificationStep_no_ShiftEnded)

text \<open>
  Modelled from the spec: \<^verbatim>\<open>Manager.HasTransitionToOffCall\<close>, which
  \<^verbatim>\<open>TestTransitionDetectors\<close> calls and the source of \<^verbatim>\<open>Manager\<close> at hand does not
  define. The spec: true iff \<^verbatim>\<open>previous.wasOnCall == true && currentlyOnCall == false\<close>.
\<close>

definition HasTransitionToOffCall :: "State \<Rightarrow> bool \<Rightarrow> bool" where
  "HasTransitionToOffCall previousState currentlyOnCall =
     (WasOnCall previousState \<and> \<not> currentlyOnCall)"

text \<open>
  Modelled from the spec: the shift-ended part of step 5 of the poll cycle, which the
  loop body at hand does not have, and the switch that enables it, which the
  configuration at hand does not have. The spec: the transition from on call to off call
  fires the shift-ended event, if enabled; the event carries its kind and a timestamp.
\<close>

definition shiftEndedStep ::
    "bool \<Rightarrow> State \<Rightarrow> bool \<Rightarrow> Time \<Rightarrow> (NotificationEvent \<times> Time) list" where
  "shiftEndedStep shiftEndEnabled previousState currentlyOnCall now =
     (if shiftEndEnabled \<and> HasTransitionToOffCall previousState currentlyOnCall
      then [(EventShiftEnded, now)] else [])"

text \<open>
  C7. \<^verbatim>\<open>hasTransitionToOffCall(previous, currentlyOnCall)\<close> is true exactly when
  \<open>previous.WasOnCall\<close> is true and \<open>currentlyOnCall\<close> is false; it is
  \<^verbatim>\<open>HasTransitionToOnCall\<close> with both booleans negated; and, when the shift-ended
  feature is enabled, it is the condition under which the shift-ended event is fired, once.
\<close>

theorem HasTransitionToOffCall_iff:
  "(HasTransitionToOffCall previous currentlyOnCall \<longleftrightarrow>
      WasOnCall previous = True \<and> currentlyOnCall = False)
   \<and> HasTransitionToOffCall previous currentlyOnCall
      = HasTransitionToOnCall (previous\<lparr>WasOnCall := \<not> WasOnCall previous\<rparr>)
          (\<not> currentlyOnCall)
   \<and> shiftEndedStep True previous currentlyOnCall now
      = (if HasTransitionToOffCall previous currentlyOnCall
         then [(EventShiftEnded, now)] else [])
   \<and> shiftEndedStep False previous currentlyOnCall now = []"
  by (simp add: HasTransitionToOffCall_def HasTransitionToOnCall_def shiftEndedStep_def)

theorem HasTransitionToOffCall_iff_witness:
  "HasTransitionToOffCall \<lparr>WasOnCall = True, LastAdvanceNotificationSent = None\<rparr> False
   \<and> \<not> HasTransitionToOffCall \<lparr>WasOnCall = True, LastAdvanceNotificationSent = None\<rparr> True
   \<and> \<not> HasTransitionToOffCall \<lparr>WasOnCall = False, LastAdvanceNotificationSent = None\<rparr> False
   \<and> shiftEndedStep True \<lparr>WasOnCall = True, LastAdvanceNotificationSent = None\<rparr> False 7
      = [(EventShiftEnded, 7)]"
  using
    HasTransitionToOffCall_iff
      [of "\<lparr>WasOnCall = True, LastAdvanceNotificationSent = None\<rparr>" False 7]
    HasTransitionToOffCall_iff
      [of "\<lparr>WasOnCall = True, LastAdvanceNotificationSent = None\<rparr>" True 7]
    HasTransitionToOffCall_iff
      [of "\<lparr>WasOnCall = False, LastAdvanceNotificationSent = None\<rparr>" False 7]
  by simp

end
